theory Spec2Isabelle
  imports Main
begin

section \<open>Values, failures and observable effects\<close>

text \<open>
  The component source (\<^verbatim>\<open>src/components/source.js\<close>) works on JavaScript values.
  Contexts are arbitrary structured data, so they are modelled by a datatype of
  JavaScript values; an object is an association list (keys in insertion order).
  Numbers are restricted to integers.
\<close>

datatype jsval =
    JUndefined
  | JNull
  | JBool bool
  | JNum int
  | JStr string
  | JArr "jsval list"
  | JObj "(string \<times> jsval) list"

text \<open>JavaScript truthiness, as used by \<^verbatim>\<open>||\<close>, \<^verbatim>\<open>&&\<close> and \<^verbatim>\<open>!\<close>.\<close>

fun truthy :: "jsval \<Rightarrow> bool" where
  "truthy JUndefined = False"
| "truthy JNull = False"
| "truthy (JBool b) = b"
| "truthy (JNum n) = (n \<noteq> 0)"
| "truthy (JStr s) = (s \<noteq> [])"
| "truthy (JArr xs) = True"
| "truthy (JObj kvs) = True"

text \<open>\<^verbatim>\<open>a || b\<close>\<close>

definition js_or :: "jsval \<Rightarrow> jsval \<Rightarrow> jsval" where
  "js_or a b = (if truthy a then a else b)"

text \<open>
  Property read \<^verbatim>\<open>v[k]\<close> for a key that no prototype defines: the own property of an
  object, \<^verbatim>\<open>undefined\<close> otherwise. (The source guards its only read of this kind on a
  context with \<^verbatim>\<open>context || {}\<close>, so it is never applied to \<^verbatim>\<open>null\<close> or
  \<^verbatim>\<open>undefined\<close>.)
\<close>

fun get_prop :: "jsval \<Rightarrow> string \<Rightarrow> jsval" where
  "get_prop (JObj kvs) k = (case map_of kvs k of Some v \<Rightarrow> v | None \<Rightarrow> JUndefined)"
| "get_prop v k = JUndefined"

text \<open>\<^verbatim>\<open>obj[k] = v\<close> on an object: an existing key keeps its place, a new one is appended.\<close>

fun set_prop :: "(string \<times> jsval) list \<Rightarrow> string \<Rightarrow> jsval \<Rightarrow> (string \<times> jsval) list" where
  "set_prop [] k v = [(k, v)]"
| "set_prop ((k', v') # kvs) k v =
     (if k' = k then (k, v) # kvs else (k', v') # set_prop kvs k v)"

text \<open>
  \<^verbatim>\<open>_.defaults(dest, src)\<close>: every key of \<^verbatim>\<open>src\<close> whose value in \<^verbatim>\<open>dest\<close> reads as
  \<^verbatim>\<open>undefined\<close> is assigned from \<^verbatim>\<open>src\<close>; \<^verbatim>\<open>dest\<close> is returned.
\<close>

fun defaults :: "(string \<times> jsval) list \<Rightarrow> (string \<times> jsval) list \<Rightarrow> (string \<times> jsval) list" where
  "defaults dest [] = dest"
| "defaults dest ((k, v) # kvs) =
     defaults (if get_prop (JObj dest) k = JUndefined then set_prop dest k v else dest) kvs"

text \<open>Decimal digits of a natural number, for the string form of a number.\<close>

function show_nat :: "nat \<Rightarrow> string" where
  "show_nat n =
     (if n < 10 then [char_of (48 + n)]
      else show_nat (n div 10) @ [char_of (48 + n mod 10)])"
  by pat_completeness auto
termination
  by (relation "measure (\<lambda>n. n)") auto

definition show_int :: "int \<Rightarrow> string" where
  "show_int i = (if i < 0 then CHR ''-'' # show_nat (nat (- i)) else show_nat (nat i))"

text \<open>\<^verbatim>\<open>sep.join\<close> of strings.\<close>

fun join_strings :: "string \<Rightarrow> string list \<Rightarrow> string" where
  "join_strings sep [] = []"
| "join_strings sep [s] = s"
| "join_strings sep (s # t # ss) = s @ sep @ join_strings sep (t # ss)"

text \<open>
  The string an element contributes to \<^verbatim>\<open>Array.prototype.join\<close>: \<^verbatim>\<open>undefined\<close> and
  \<^verbatim>\<open>null\<close> give the empty string, everything else its \<^verbatim>\<open>ToString\<close>.
\<close>

fun join_item :: "jsval \<Rightarrow> string" where
  "join_item JUndefined = []"
| "join_item JNull = []"
| "join_item (JBool b) = (if b then ''true'' else ''false'')"
| "join_item (JNum n) = show_int n"
| "join_item (JStr s) = s"
| "join_item (JArr xs) = join_strings '','' (map join_item xs)"
| "join_item (JObj kvs) = ''[object Object]''"

text \<open>\<^verbatim>\<open>array.join(sep)\<close>\<close>

definition js_join :: "string \<Rightarrow> jsval list \<Rightarrow> string" where
  "js_join sep xs = join_strings sep (map join_item xs)"

text \<open>
  A thrown value or a rejection reason: \<^verbatim>\<open>null\<close> (from \<^verbatim>\<open>Promise.reject(null)\<close>), an
  \<^verbatim>\<open>Error\<close> with its message, a \<^verbatim>\<open>TypeError\<close> of the runtime (a property read or a
  method call on a value that has none), or a failure reported by a collaborator.
\<close>

datatype error =
    RejectNull
  | Error string
  | TypeError
  | Failure string

text \<open>What \<^verbatim>\<open>console.error\<close> was called with: a caught failure or a message.\<close>

datatype logged = LogErr error | LogMsg string

text \<open>
  The effects a caller can observe besides the returned value: a call of the
  diagnostics sink, or a call \<^verbatim>\<open>engine().render(path, str, context)\<close> of the templating
  engine (\<^verbatim>\<open>None\<close> is the path \<^verbatim>\<open>null\<close>).
\<close>

datatype event =
    ConsoleError logged
  | EngineRender "string option" string jsval

text \<open>
  An operation yields its outcome (\<^verbatim>\<open>Inl\<close>: it threw, or its promise rejected) and the
  events it caused, in order.
\<close>

type_synonym 'a io = "(error + 'a) \<times> event list"

definition resolved :: "'a \<Rightarrow> 'a io" where
  "resolved x = (Inr x, [])"

definition rejected :: "error \<Rightarrow> 'a io" where
  "rejected e = (Inl e, [])"

text \<open>Awaiting the promise of a collaborator whose outcome is \<open>r\<close>.\<close>

definition await :: "error + 'a \<Rightarrow> 'a io" where
  "await r = (r, [])"

text \<open>Sequencing: a failure of the first step skips the rest.\<close>

definition and_then :: "'a io \<Rightarrow> ('a \<Rightarrow> 'b io) \<Rightarrow> 'b io" where
  "and_then m f =
     (case m of
        (Inl e, evs) \<Rightarrow> (Inl e, evs)
      | (Inr x, evs) \<Rightarrow> (case f x of (r, evs') \<Rightarrow> (r, evs @ evs')))"

text \<open>\<^verbatim>\<open>promise.catch(handler)\<close>\<close>

definition catch_io :: "'a io \<Rightarrow> (error \<Rightarrow> 'a io) \<Rightarrow> 'a io" where
  "catch_io m h =
     (case m of
        (Inl e, evs) \<Rightarrow> (case h e of (r, evs') \<Rightarrow> (r, evs @ evs'))
      | (Inr x, evs) \<Rightarrow> (Inr x, evs))"

definition console_error :: "logged \<Rightarrow> unit io" where
  "console_error l = (Inr (), [ConsoleError l])"

section \<open>Entities and the component source\<close>

text \<open>
  A variant. \<open>v_content\<close> is the outcome of \<^verbatim>\<open>getContent()\<close>, \<open>v_json\<close> the value of
  \<^verbatim>\<open>toJSON()\<close>, \<open>v_preview\<close> the preview layout handle (\<open>None\<close>: \<^verbatim>\<open>undefined\<close>).
\<close>

record variant =
  v_handle :: string
  v_viewPath :: string
  v_context :: jsval
  v_content :: "error + string"
  v_preview :: "string option"
  v_json :: jsval

record component =
  c_handle :: string
  c_collated :: bool
  c_variants :: "variant list"
  c_defaultIndex :: nat
  c_preview :: "string option"
  c_json :: jsval

text \<open>
  An entity by its \<^verbatim>\<open>type\<close> tag. \<open>Other t\<close> is an entity whose tag \<open>t\<close> is neither
  \<^verbatim>\<open>component\<close> nor \<^verbatim>\<open>variant\<close> (a collection, say); it has no context and no content.
\<close>

datatype entity = Component component | Variant variant | Other string

text \<open>
  The first argument of \<^verbatim>\<open>render\<close>: a falsy value that is not a string (\<^verbatim>\<open>undefined\<close>,
  \<^verbatim>\<open>null\<close>), a string (a template path), or an entity.
\<close>

datatype render_arg = Absent | Path string | Entity entity

record render_opts =
  useLayout :: bool

text \<open>
  Modelled from the spec: \<^verbatim>\<open>variants().default()\<close> belongs to the variant collection,
  which is not part of this file. The specification has it return
  \<^verbatim>\<open>variants()[defaultIndex]\<close>; without such a variant it is \<^verbatim>\<open>undefined\<close>.
\<close>

definition default_variant :: "component \<Rightarrow> variant option" where
  "default_variant c =
     (if c_defaultIndex c < length (c_variants c)
      then Some (c_variants c ! c_defaultIndex c) else None)"

text \<open>
  The component source: the fields the constructor sets, and the collaborators it
  calls, each given by its outcome. \<open>src_load\<close> is \<^verbatim>\<open>this.load()\<close>, \<open>src_resolve\<close> the
  context resolver \<^verbatim>\<open>resolve(context, this)\<close> (a resolved context is an object),
  \<open>src_engine\<close> is \<^verbatim>\<open>this.engine().render\<close>, \<open>src_readFile\<close> is \<^verbatim>\<open>fs.readFileAsync\<close>
  and \<open>src_find\<close> is \<^verbatim>\<open>this.find(handle)\<close> (\<open>None\<close>: nothing found).
\<close>

record source =
  src_ext :: string
  src_splitter :: string
  src_yield :: string
  src_collator :: "(jsval \<Rightarrow> variant \<Rightarrow> error + jsval) option"
  src_load :: "error + unit"
  src_resolve :: "jsval \<Rightarrow> error + (string \<times> jsval) list"
  src_engine :: "string option \<Rightarrow> string \<Rightarrow> jsval \<Rightarrow> error + string"
  src_readFile :: "string \<Rightarrow> error + string"
  src_find :: "string \<Rightarrow> entity option"

text \<open>\<^verbatim>\<open>this.engine().render(path, str, context)\<close>: the call is an event.\<close>

definition engine_render :: "source \<Rightarrow> string option \<Rightarrow> string \<Rightarrow> jsval \<Rightarrow> string io" where
  "engine_render src p str context = (src_engine src p str context, [EngineRender p str context])"

section \<open>Render pipeline\<close>

text \<open>
  The methods \<^verbatim>\<open>_renderVariant\<close>, \<^verbatim>\<open>_renderCollatedComponent\<close> and \<^verbatim>\<open>_wrapInLayout\<close> are
  named here without the leading underscore.
\<close>

definition renderString :: "source \<Rightarrow> string \<Rightarrow> jsval \<Rightarrow> string io" where
  "renderString src str context = engine_render src None str context"

definition renderVariant :: "source \<Rightarrow> variant \<Rightarrow> jsval \<Rightarrow> string io" where
  "renderVariant src variant context =
     (let context = js_or context (v_context variant) in
      and_then (await (v_content variant)) (\<lambda>content.
      and_then (await (src_resolve src context)) (\<lambda>ctx.
      let ctx = set_prop ctx ''_self'' (v_json variant) in
      engine_render src (Some (v_viewPath variant)) content (JObj ctx))))"

definition wrapInLayout ::
  "source \<Rightarrow> string \<Rightarrow> string \<Rightarrow> (string \<times> jsval) list \<Rightarrow> string io" where
  "wrapInLayout src content previewHandle context =
     (case src_find src previewHandle of
        None \<Rightarrow>
          and_then
            (console_error (LogMsg (''Preview layout '' @ previewHandle @ '' not found.'')))
            (\<lambda>_. resolved content)
      | Some found \<Rightarrow>
          (case (case found of
                   Component c \<Rightarrow> map_option Variant (default_variant c)
                 | other \<Rightarrow> Some other) of
             None \<Rightarrow> rejected TypeError
           | Some (Variant layout) \<Rightarrow>
               and_then (await (src_resolve src (v_context layout))) (\<lambda>layoutContext.
               and_then (await (v_content layout)) (\<lambda>layoutContent.
               let layoutContext = defaults layoutContext context;
                   layoutContext = set_prop layoutContext (src_yield src) (JStr content)
               in engine_render src (Some (v_viewPath layout)) layoutContent
                    (JObj layoutContext)))
           | Some other \<Rightarrow>
               and_then (await (src_resolve src JUndefined)) (\<lambda>layoutContext.
               rejected TypeError)))"

text \<open>
  \<^verbatim>\<open>_.uniq\<close>: the loop appends an element to the result unless the result holds it
  already.
\<close>

fun uniq_loop :: "'a list \<Rightarrow> 'a list \<Rightarrow> 'a list" where
  "uniq_loop res [] = res"
| "uniq_loop res (x # xs) = uniq_loop (if x \<in> set res then res else res @ [x]) xs"

definition uniq :: "'a list \<Rightarrow> 'a list" where
  "uniq xs = uniq_loop [] xs"

text \<open>
  The per-variant renders of a collated component are started together and settle in
  an order the program does not control. A schedule is any list of task indices; the
  tasks settle in the order it names them (an index counts once, at its first
  occurrence; indices of no task are ignored), and the tasks it does not name settle
  after these, in the order they were started. Each task is taken to run
  undisturbed, so the schedule decides how the events of the tasks follow one another
  and which failure comes first. A failure does not stop the other tasks: their
  events are recorded all the same, here before whatever follows the failure.
\<close>

definition completion_order :: "nat \<Rightarrow> nat list \<Rightarrow> nat list" where
  "completion_order n sched =
     uniq (filter (\<lambda>i. i < n) sched) @ filter (\<lambda>i. i \<notin> set sched) [0..<n]"

fun failures :: "(error + 'a) list \<Rightarrow> error list" where
  "failures [] = []"
| "failures (Inl e # rs) = e # failures rs"
| "failures (Inr x # rs) = failures rs"

fun successes :: "(error + 'a) list \<Rightarrow> 'a list" where
  "successes [] = []"
| "successes (Inl e # rs) = successes rs"
| "successes (Inr x # rs) = x # successes rs"

text \<open>
  \<^verbatim>\<open>yield [p1, ..., pn]\<close> in a \<^verbatim>\<open>co\<close> generator, which is \<^verbatim>\<open>Promise.all\<close>: it rejects
  with the failure that settles first, and otherwise resolves with the values in the
  order of the array, whatever the order of completion.
\<close>

definition promise_all :: "nat list \<Rightarrow> 'a io list \<Rightarrow> 'a list io" where
  "promise_all sched tasks =
     (let order = completion_order (length tasks) sched;
          evs = concat (map (\<lambda>i. snd (tasks ! i)) order)
      in case failures (map (\<lambda>i. fst (tasks ! i)) order) of
           e # es \<Rightarrow> (Inl e, evs)
         | [] \<Rightarrow> (Inr (successes (map fst tasks)), evs))"

text \<open>
  Line 124: the context a variant of a collated component is resolved with,
  \<^verbatim>\<open>context[`@${variant.handle}`] || variant.context\<close>.
\<close>

definition variant_context :: "jsval \<Rightarrow> variant \<Rightarrow> jsval" where
  "variant_context context variant =
     js_or (get_prop context (''@'' @ v_handle variant)) (v_context variant)"

text \<open>
  Lines 124-128: the promise the \<^verbatim>\<open>map\<close> callback builds for one variant; \<open>rend\<close>
  stands for the call \<^verbatim>\<open>this.render(variant, ctx)\<close>.
\<close>

definition collate_variant ::
  "source \<Rightarrow> (variant \<Rightarrow> jsval \<Rightarrow> jsval io) \<Rightarrow> jsval \<Rightarrow> variant \<Rightarrow> jsval io" where
  "collate_variant src rend context variant =
     and_then (await (src_resolve src (variant_context context variant))) (\<lambda>ctx.
     and_then (rend variant (JObj ctx)) (\<lambda>markup.
       case src_collator src of
         Some collator \<Rightarrow> await (collator markup variant)
       | None \<Rightarrow> resolved markup))"

text \<open>\<^verbatim>\<open>_renderCollatedComponent\<close>\<close>

definition renderCollatedComponent ::
  "source \<Rightarrow> (variant \<Rightarrow> jsval \<Rightarrow> jsval io) \<Rightarrow> nat list \<Rightarrow> component \<Rightarrow> jsval \<Rightarrow> string io" where
  "renderCollatedComponent src rend sched component context =
     (let context = js_or context (JObj []) in
      and_then
        (promise_all sched (map (collate_variant src rend context) (c_variants component)))
        (\<lambda>markups. resolved (js_join [CHR 0x0A] markups)))"

text \<open>\<^verbatim>\<open>entity.preview\<close> and \<^verbatim>\<open>entity.toJSON()\<close> of a component or variant.\<close>

fun preview :: "entity \<Rightarrow> string option" where
  "preview (Component c) = c_preview c"
| "preview (Variant v) = v_preview v"
| "preview (Other t) = None"

fun toJSON :: "entity \<Rightarrow> jsval" where
  "toJSON (Component c) = c_json c"
| "toJSON (Variant v) = v_json v"
| "toJSON (Other t) = JUndefined"

text \<open>
  Lines 99-104: the layout step that follows the rendering of \<open>entity\<close> (for a
  component that is not collated, \<open>entity\<close> is its default variant by then). An empty
  handle is falsy, like a missing one.
\<close>

definition finish :: "source \<Rightarrow> bool \<Rightarrow> entity \<Rightarrow> string \<Rightarrow> jsval io" where
  "finish src use entity rendered =
     (case preview entity of
        Some handle \<Rightarrow>
          (if use \<and> handle \<noteq> [] then
             and_then (wrapInLayout src rendered handle [(''_target'', toJSON entity)])
               (\<lambda>wrapped. resolved (JStr wrapped))
           else resolved (JStr rendered))
      | None \<Rightarrow> resolved (JStr rendered))"

text \<open>\<^verbatim>\<open>opts = opts || {}; opts.useLayout = opts.useLayout || false\<close>\<close>

definition use_layout :: "render_opts option \<Rightarrow> bool" where
  "use_layout opts = (case opts of None \<Rightarrow> False | Some opts \<Rightarrow> useLayout opts)"

text \<open>
  \<^verbatim>\<open>render(entity, context, opts)\<close>, and \<open>pipeline\<close>, the generator it hands to \<^verbatim>\<open>co\<close>
  (lines 85-108). The value of the promise is the markup, or \<^verbatim>\<open>undefined\<close>. \<open>sched\<close>
  is the order in which the renders of a collated component settle.
\<close>

function pipeline :: "source \<Rightarrow> nat list \<Rightarrow> entity \<Rightarrow> jsval \<Rightarrow> bool \<Rightarrow> jsval io"
  and render ::
    "source \<Rightarrow> nat list \<Rightarrow> render_arg \<Rightarrow> jsval \<Rightarrow> render_opts option \<Rightarrow> jsval io" where
  "pipeline src sched entity context use =
     and_then (await (src_load src)) (\<lambda>loaded.
       case entity of
         Component component \<Rightarrow>
           (if c_collated component then
              and_then
                (renderCollatedComponent src
                   (\<lambda>variant ctx. render src sched (Entity (Variant variant)) ctx None)
                   sched component context)
                (finish src use entity)
            else
              (case default_variant component of
                 None \<Rightarrow> rejected TypeError
               | Some variant \<Rightarrow>
                   and_then (renderVariant src variant context)
                     (finish src use (Variant variant))))
       | Variant variant \<Rightarrow>
           and_then (renderVariant src variant context) (finish src use entity)
       | Other t \<Rightarrow> rejected (Error (''Cannot render entity of type '' @ t)))"
| "render src sched arg context opts =
     (case arg of
        Absent \<Rightarrow> rejected RejectNull
      | Path file \<Rightarrow>
          (if file = [] then rejected RejectNull
           else
             and_then (await (src_readFile src file)) (\<lambda>content.
             and_then (engine_render src (Some file) content context) (\<lambda>markup.
             resolved (JStr markup))))
      | Entity entity \<Rightarrow>
          catch_io (pipeline src sched entity context (use_layout opts))
            (\<lambda>err. and_then (console_error (LogErr err)) (\<lambda>_. resolved JUndefined)))"
  by pat_completeness auto
termination
  by (relation "measure (\<lambda>call.
        case call of
          Inl (src, sched, entity, context, use) \<Rightarrow>
            (case entity of Component c \<Rightarrow> 2 | _ \<Rightarrow> 0)
        | Inr (src, sched, arg, context, opts) \<Rightarrow>
            (case arg of Entity (Component c) \<Rightarrow> 3 | Entity _ \<Rightarrow> 1 | _ \<Rightarrow> 0))")
    (auto split: entity.splits)

declare pipeline.simps [simp del] render.simps [simp del]

section \<open>Status registry\<close>

text \<open>
  A status record \<^verbatim>\<open>{handle, label, ...}\<close>; the record returned for several handles
  additionally has a \<^verbatim>\<open>statuses\<close> field. A value that \<^verbatim>\<open>statusInfo\<close> returns, or that a
  \<^verbatim>\<open>statuses\<close> list holds, is \<^verbatim>\<open>null\<close>, \<^verbatim>\<open>undefined\<close>, a record, or a member that the
  options object inherits from \<^verbatim>\<open>Object.prototype\<close> (named by its key).
\<close>

datatype status =
  Status (s_handle: string) (s_label: string) (s_fields: "(string \<times> string) list")
    (s_statuses: "status_result list option")
and status_result = RNull | RUndefined | RInherited string | RStatus status

text \<open>\<^verbatim>\<open>props.status\<close>: the taxonomy \<^verbatim>\<open>{default, mixed, options}\<close>.\<close>

record taxonomy =
  st_default :: string
  st_mixed :: status
  st_options :: "(string \<times> status) list"

text \<open>A handle is a string, or \<^verbatim>\<open>undefined\<close>.\<close>

datatype handle = HUndefined | HStr string

text \<open>The argument of \<^verbatim>\<open>statusInfo\<close>: one handle or an array of handles.\<close>

datatype handle_arg = One handle | Many "handle list"

text \<open>
  The keys every plain object inherits from \<^verbatim>\<open>Object.prototype\<close>; each reads as a
  function, \<^verbatim>\<open>__proto__\<close> as an object.
\<close>

definition object_prototype_members :: "string list" where
  "object_prototype_members =
     [''constructor'', ''__defineGetter__'', ''__defineSetter__'', ''hasOwnProperty'',
      ''__lookupGetter__'', ''__lookupSetter__'', ''isPrototypeOf'',
      ''propertyIsEnumerable'', ''toString'', ''valueOf'', ''__proto__'',
      ''toLocaleString'']"

text \<open>
  \<^verbatim>\<open>this._statuses.options[h]\<close>: the option stored under the key, else the member
  inherited under it, else \<^verbatim>\<open>undefined\<close>.
\<close>

definition option_of :: "taxonomy \<Rightarrow> string \<Rightarrow> status_result" where
  "option_of t h =
     (case map_of (st_options t) h of
        Some s \<Rightarrow> RStatus s
      | None \<Rightarrow> if h \<in> set object_prototype_members then RInherited h else RUndefined)"

text \<open>Truthiness of such a value: records, functions and objects are truthy.\<close>

fun truthy_result :: "status_result \<Rightarrow> bool" where
  "truthy_result RNull = False"
| "truthy_result RUndefined = False"
| "truthy_result (RInherited k) = True"
| "truthy_result (RStatus s) = True"

text \<open>\<^verbatim>\<open>_.compact\<close>: the loop keeps the truthy elements.\<close>

fun compact :: "status_result list \<Rightarrow> status_result list" where
  "compact [] = []"
| "compact (r # rs) = (if truthy_result r then r # compact rs else compact rs)"

text \<open>
  \<^verbatim>\<open>statusInfo\<close> on a value that is not an array (lines 149-151 and 162-169): this is
  also what the recursive calls on the elements of an array of handles run. The
  result comes with the diagnostics it logged.
\<close>

fun statusInfo1 :: "taxonomy \<Rightarrow> handle \<Rightarrow> status_result \<times> event list" where
  "statusInfo1 t HUndefined = (RNull, [])"
| "statusInfo1 t (HStr h) =
     (if h = s_handle (st_mixed t) then (RStatus (st_mixed t), [])
      else if \<not> truthy_result (option_of t h) then
        (option_of t (st_default t),
         [ConsoleError (LogMsg (''Status '' @ h @ '' is not a known option.''))])
      else (option_of t h, []))"

text \<open>\<^verbatim>\<open>details = _.clone(mixed); details.statuses = statuses\<close>\<close>

definition with_statuses :: "status \<Rightarrow> status_result list \<Rightarrow> status" where
  "with_statuses m ss = Status (s_handle m) (s_label m) (s_fields m) (Some ss)"

fun statusInfo :: "taxonomy \<Rightarrow> handle_arg \<Rightarrow> status_result \<times> event list" where
  "statusInfo t (One h) = statusInfo1 t h"
| "statusInfo t (Many hs) =
     (if hs = [] then (RNull, [])
      else
        let handles = uniq hs in
        if length handles = 1 then statusInfo1 t (hd handles)
        else
          let statuses = compact (map (\<lambda>l. fst (statusInfo1 t l)) handles);
              details = with_statuses (st_mixed t) statuses
          in (RStatus details, concat (map (\<lambda>l. snd (statusInfo1 t l)) handles)))"

text \<open>
  The reading of "deduplicate, keeping first occurrences" that the specification uses:
  an element stays where it first occurs and its later occurrences are removed.
\<close>

fun first_occurrences :: "'a list \<Rightarrow> 'a list" where
  "first_occurrences [] = []"
| "first_occurrences (x # xs) = x # first_occurrences (filter (\<lambda>y. y \<noteq> x) xs)"

section \<open>File classifier\<close>

text \<open>
  Modelled from the spec: the glob matcher is a library outside this repository. The
  specification asks for the multi-level wildcard \<^verbatim>\<open>**/\<close> (any number of leading
  directories), \<^verbatim>\<open>*\<close> (any characters of one path segment), a brace list of
  alternatives, and literal text. The extension and the splitter token are taken as
  literal text.
\<close>

datatype glob_token = GlobStarSlash | Star | Lit string | Braces "string list"

fun glob_match :: "glob_token list \<Rightarrow> string \<Rightarrow> bool" where
  "glob_match [] s = (s = [])"
| "glob_match (Lit l # g) s = (take (length l) s = l \<and> glob_match g (drop (length l) s))"
| "glob_match (Braces ls # g) s =
     list_ex (\<lambda>l. take (length l) s = l \<and> glob_match g (drop (length l) s)) ls"
| "glob_match (Star # g) s =
     list_ex (\<lambda>n. CHR ''/'' \<notin> set (take n s) \<and> glob_match g (drop n s)) [0..<Suc (length s)]"
| "glob_match (GlobStarSlash # g) s =
     (glob_match g s \<or>
      list_ex (\<lambda>n. s ! n = CHR ''/'' \<and> glob_match g (drop (Suc n) s)) [0..<length s])"

text \<open>A pattern handed to \<^verbatim>\<open>anymatch\<close>: a glob, negated when it is written with \<^verbatim>\<open>!\<close>.\<close>

datatype matcher = Pos "glob_token list" | Neg "glob_token list"

fun negated :: "matcher \<Rightarrow> string \<Rightarrow> bool" where
  "negated (Neg g) s = glob_match g s"
| "negated (Pos g) s = False"

fun accepted :: "matcher \<Rightarrow> string \<Rightarrow> bool" where
  "accepted (Pos g) s = glob_match g s"
| "accepted (Neg g) s = False"

text \<open>
  Modelled from the spec: \<^verbatim>\<open>anymatch(matchers, string)\<close> holds when no negated pattern
  matches the string and some other pattern does.
\<close>

definition anymatch :: "matcher list \<Rightarrow> string \<Rightarrow> bool" where
  "anymatch ms s = (\<not> list_ex (\<lambda>m. negated m s) ms \<and> list_ex (\<lambda>m. accepted m s) ms)"

text \<open>\<^verbatim>\<open>String.prototype.toLowerCase\<close> on the letters A to Z.\<close>

definition lower_char :: "char \<Rightarrow> char" where
  "lower_char c =
     (let n = (of_char c :: nat) in if 65 \<le> n \<and> n \<le> 90 then char_of (n + 32) else c)"

definition toLowerCase :: "string \<Rightarrow> string" where
  "toLowerCase s = map lower_char s"

record fs_file =
  path :: string

text \<open>The globs the predicates build from \<^verbatim>\<open>this.ext\<close> and \<^verbatim>\<open>this.splitter\<close>.\<close>

definition view_glob :: "source \<Rightarrow> glob_token list" where
  "view_glob src = [GlobStarSlash, Star, Lit (src_ext src)]"

definition varview_glob :: "source \<Rightarrow> glob_token list" where
  "varview_glob src =
     [GlobStarSlash, Star, Lit (src_splitter src), Star, Lit (src_ext src)]"

definition config_glob :: "glob_token list" where
  "config_glob = [GlobStarSlash, Star, Lit ''.config.'', Braces [''js'', ''json'', ''yaml'', ''yml'']]"

definition readme_glob :: "glob_token list" where
  "readme_glob = [GlobStarSlash, Lit ''readme.md'']"

definition dotted_glob :: "glob_token list" where
  "dotted_glob = [GlobStarSlash, Star, Lit ''.'', Star]"

definition isView :: "source \<Rightarrow> fs_file \<Rightarrow> bool" where
  "isView src f = anymatch [Pos (view_glob src), Neg (varview_glob src)] (toLowerCase (path f))"

definition isVarView :: "source \<Rightarrow> fs_file \<Rightarrow> bool" where
  "isVarView src f = anymatch [Pos (varview_glob src)] (toLowerCase (path f))"

definition isConfig :: "source \<Rightarrow> fs_file \<Rightarrow> bool" where
  "isConfig src f = anymatch [Pos config_glob] (toLowerCase (path f))"

definition isReadme :: "source \<Rightarrow> fs_file \<Rightarrow> bool" where
  "isReadme src f = anymatch [Pos readme_glob] (toLowerCase (path f))"

definition isAsset :: "source \<Rightarrow> fs_file \<Rightarrow> bool" where
  "isAsset src f =
     anymatch [Pos dotted_glob, Neg (view_glob src), Neg config_glob, Neg readme_glob]
       (toLowerCase (path f))"

section \<open>The specification's reading of two operations\<close>

text \<open>
  \<^verbatim>\<open>renderString\<close> as the specification words it: the context goes through context
  resolution, and the resolved context goes to the engine.
\<close>

definition renderString_spec :: "source \<Rightarrow> string \<Rightarrow> jsval \<Rightarrow> string io" where
  "renderString_spec src str context =
     and_then (await (src_resolve src context)) (\<lambda>ctx. engine_render src None str (JObj ctx))"

text \<open>
  The context of a collated variant as the specification words it: the value under
  the key \<^verbatim>\<open>@handle\<close> when the supplied context has that key, the stored context of the
  variant otherwise.
\<close>

definition variant_context_spec :: "jsval \<Rightarrow> variant \<Rightarrow> jsval" where
  "variant_context_spec context variant =
     (case context of
        JObj kvs \<Rightarrow>
          (case map_of kvs (''@'' @ v_handle variant) of
             Some c \<Rightarrow> c
           | None \<Rightarrow> v_context variant)
      | _ \<Rightarrow> v_context variant)"

section \<open>Example catalog\<close>

text \<open>
  A small catalog on which the theorems below are exercised. The resolver expands the
  reference \<^verbatim>\<open>@ref\<close> in the values of an object (anything else resolves to the empty
  object); the engine prints the template, then the \<^verbatim>\<open>title\<close> and the \<^verbatim>\<open>yield\<close> of its
  context.
\<close>

definition example_resolve :: "jsval \<Rightarrow> error + (string \<times> jsval) list" where
  "example_resolve c =
     (case c of
        JObj kvs \<Rightarrow> Inr (map (\<lambda>(k, v). (k, if v = JStr ''@ref'' then JStr ''expanded'' else v)) kvs)
      | _ \<Rightarrow> Inr [])"

definition example_engine :: "string option \<Rightarrow> string \<Rightarrow> jsval \<Rightarrow> error + string" where
  "example_engine p str c = Inr (str @ join_item (get_prop c ''title'') @ join_item (get_prop c ''yield''))"

definition variant_a :: variant where
  "variant_a =
     \<lparr>v_handle = ''a'', v_viewPath = ''card/a.hbs'',
      v_context = JObj [(''title'', JStr ''A'')], v_content = Inr ''x'',
      v_preview = Some ''@preview'', v_json = JObj [(''handle'', JStr ''a'')]\<rparr>"

definition variant_b :: variant where
  "variant_b =
     \<lparr>v_handle = ''b'', v_viewPath = ''card/b.hbs'',
      v_context = JObj [(''title'', JStr ''B'')], v_content = Inr ''y'',
      v_preview = Some ''@preview'', v_json = JObj [(''handle'', JStr ''b'')]\<rparr>"

definition broken_variant :: variant where
  "broken_variant =
     \<lparr>v_handle = ''c'', v_viewPath = ''card/c.hbs'',
      v_context = JObj [], v_content = Inl (Failure ''ENOENT''),
      v_preview = None, v_json = JObj [(''handle'', JStr ''c'')]\<rparr>"

definition layout_variant :: variant where
  "layout_variant =
     \<lparr>v_handle = ''preview'', v_viewPath = ''preview.hbs'',
      v_context = JObj [(''lang'', JStr ''en'')], v_content = Inr ''L:'',
      v_preview = None, v_json = JObj [(''handle'', JStr ''preview'')]\<rparr>"

definition collated_card :: component where
  "collated_card =
     \<lparr>c_handle = ''card'', c_collated = True, c_variants = [variant_a, variant_b],
      c_defaultIndex = 0, c_preview = Some ''@preview'',
      c_json = JObj [(''handle'', JStr ''card'')]\<rparr>"

definition plain_card :: component where
  "plain_card =
     \<lparr>c_handle = ''card'', c_collated = False, c_variants = [variant_a, variant_b],
      c_defaultIndex = 0, c_preview = Some ''@preview'',
      c_json = JObj [(''handle'', JStr ''card'')]\<rparr>"

text \<open>A layout whose own context has a \<^verbatim>\<open>_target\<close>, and one whose \<^verbatim>\<open>_target\<close> is \<^verbatim>\<open>undefined\<close>.\<close>

definition owning_layout :: variant where
  "owning_layout =
     \<lparr>v_handle = ''owned'', v_viewPath = ''owned.hbs'',
      v_context = JObj [(''lang'', JStr ''en''), (''_target'', JStr ''own'')],
      v_content = Inr ''O:'', v_preview = None,
      v_json = JObj [(''handle'', JStr ''owned'')]\<rparr>"

definition hollow_layout :: variant where
  "hollow_layout =
     \<lparr>v_handle = ''hollow'', v_viewPath = ''hollow.hbs'',
      v_context = JObj [(''_target'', JUndefined), (''lang'', JStr ''en'')],
      v_content = Inr ''H:'', v_preview = None,
      v_json = JObj [(''handle'', JStr ''hollow'')]\<rparr>"

definition example_source :: source where
  "example_source =
     \<lparr>src_ext = ''.hbs'', src_splitter = ''~'', src_yield = ''yield'',
      src_collator = None, src_load = Inr (),
      src_resolve = example_resolve, src_engine = example_engine,
      src_readFile = (\<lambda>p. if p = ''page.hbs'' then Inr ''P:'' else Inl (Failure ''ENOENT'')),
      src_find = (\<lambda>h.
        if h = ''@preview'' then Some (Variant layout_variant)
        else if h = ''@owned'' then Some (Variant owning_layout)
        else if h = ''@hollow'' then Some (Variant hollow_layout)
        else None)\<rparr>"

text \<open>The example source with a collator that brackets the markup of each variant.\<close>

definition example_collator :: "jsval \<Rightarrow> variant \<Rightarrow> error + jsval" where
  "example_collator markup variant =
     Inr (JStr (''['' @ v_handle variant @ '':'' @ join_item markup @ '']''))"

definition collating_source :: source where
  "collating_source = example_source\<lparr>src_collator := Some example_collator\<rparr>"

text \<open>The example taxonomy: two options, the default \<^verbatim>\<open>ready\<close>, and the mixed record.\<close>

definition ready_status :: status where
  "ready_status = Status ''ready'' ''Ready'' [(''color'', ''#29CC29'')] None"

definition wip_status :: status where
  "wip_status = Status ''wip'' ''WIP'' [(''color'', ''#FF9233'')] None"

definition mixed_status :: status where
  "mixed_status = Status ''mixed'' ''Mixed'' [] None"

definition example_taxonomy :: taxonomy where
  "example_taxonomy =
     \<lparr>st_default = ''ready'', st_mixed = mixed_status,
      st_options = [(''ready'', ready_status), (''wip'', wip_status)]\<rparr>"

text \<open>A taxonomy whose default handle is the handle of its mixed record.\<close>

definition mixed_default_taxonomy :: taxonomy where
  "mixed_default_taxonomy =
     \<lparr>st_default = ''mixed'', st_mixed = mixed_status,
      st_options = [(''ready'', ready_status),
                    (''mixed'', Status ''mixed'' ''Mixed'' [(''color'', ''#888888'')] None)]\<rparr>"

section \<open>Verification: the monad of outcomes\<close>

lemma and_then_await_ok [simp]: "and_then (await (Inr x)) f = f x"
  by (simp add: and_then_def await_def split: prod.splits)

lemma and_then_await_fail [simp]: "and_then (await (Inl e)) f = (Inl e, [])"
  by (simp add: and_then_def await_def)

lemma and_then_resolved [simp]: "and_then (resolved x) f = f x"
  by (simp add: and_then_def resolved_def split: prod.splits)

lemma and_then_rejected [simp]: "and_then (rejected e) f = (Inl e, [])"
  by (simp add: and_then_def rejected_def)

lemma and_then_Inl [simp]: "and_then (Inl e, evs) f = (Inl e, evs)"
  by (simp add: and_then_def)

lemma and_then_Inr [simp]: "and_then (Inr x, evs) f = (fst (f x), evs @ snd (f x))"
  by (simp add: and_then_def split: prod.splits)

lemma and_then_ok: "m = (Inr x, evs) \<Longrightarrow> and_then m f = (fst (f x), evs @ snd (f x))"
  by (simp add: and_then_def split: prod.splits)

lemma and_then_fail: "m = (Inl e, evs) \<Longrightarrow> and_then m f = (Inl e, evs)"
  by (simp add: and_then_def)

lemma fst_and_then_ok: "fst m = Inr x \<Longrightarrow> fst (and_then m f) = fst (f x)"
  by (cases m) (simp add: and_then_def split: prod.splits)

lemma fst_and_then_fail: "fst m = Inl e \<Longrightarrow> fst (and_then m f) = Inl e"
  by (cases m) (simp add: and_then_def)

lemma swallow: "and_then (console_error l) (\<lambda>_. resolved x) = (Inr x, [ConsoleError l])"
  by (simp add: and_then_def console_error_def resolved_def)

section \<open>Verification: render pipeline\<close>

text \<open>Without an entity \<^verbatim>\<open>render\<close> rejects with \<^verbatim>\<open>null\<close>, before any pipeline is started.\<close>

lemma render_Absent: "render src sched Absent cx opts = (Inl RejectNull, [])"
  by (simp add: render.simps rejected_def)

lemma render_Entity:
  "render src sched (Entity e) cx opts =
     (case pipeline src sched e cx (use_layout opts) of
        (Inl err, evs) \<Rightarrow> (Inr JUndefined, evs @ [ConsoleError (LogErr err)])
      | (Inr v, evs) \<Rightarrow> (Inr v, evs))"
  by (simp add: render.simps catch_io_def swallow split: prod.splits sum.splits)




lemma pipeline_plain_Component:
  "src_load src = Inr () \<Longrightarrow> \<not> c_collated c \<Longrightarrow> default_variant c = Some v \<Longrightarrow>
   pipeline src sched (Component c) cx u =
     and_then (renderVariant src v cx) (finish src u (Variant v))"
  by (simp add: pipeline.simps)

lemma pipeline_plain_eq:
  "\<not> c_collated c \<Longrightarrow> default_variant c = Some v \<Longrightarrow>
   pipeline src sched (Component c) cx u = pipeline src sched' (Variant v) cx u"
  by (cases "src_load src") (simp_all add: pipeline.simps)

text \<open>
  C3. For a component that is not collated and has its default variant, \<^verbatim>\<open>render\<close>
  of the component is \<^verbatim>\<open>render\<close> of that variant, with the same context and options:
  the same outcome and the same events.
\<close>

theorem render_default_variant:
  assumes "\<not> c_collated c" and "c_defaultIndex c < length (c_variants c)"
  shows "render src sched (Entity (Component c)) cx opts =
         render src sched (Entity (Variant (c_variants c ! c_defaultIndex c))) cx opts"
proof -
  have "default_variant c = Some (c_variants c ! c_defaultIndex c)"
    using assms(2) by (simp add: default_variant_def)
  then show ?thesis
    using pipeline_plain_eq [OF assms(1), of "c_variants c ! c_defaultIndex c" src sched cx "use_layout opts" sched]
    by (simp add: render_Entity)
qed

text \<open>
  C5 (as amended). \<^verbatim>\<open>renderString\<close> hands the template and the context, as given, to
  the engine, with the path \<^verbatim>\<open>null\<close>, and returns what the engine returns. The context
  is not resolved.
\<close>

theorem renderString_passes_context:
  "renderString src str cx =
     (src_engine src None str cx, [EngineRender None str cx])"
  by (simp add: renderString_def engine_render_def)

text \<open>
  C7. When \<^verbatim>\<open>find\<close> does not resolve the layout handle, the wrap logs that the layout
  was not found and returns the content as it is; wrapping the returned content
  again gives the same content again (and a second diagnostic).
\<close>

theorem wrapInLayout_missing:
  assumes "src_find src previewHandle = None"
  shows "wrapInLayout src content previewHandle cx =
           (Inr content,
            [ConsoleError (LogMsg (''Preview layout '' @ previewHandle @ '' not found.''))])
         \<and> and_then (wrapInLayout src content previewHandle cx)
             (\<lambda>again. wrapInLayout src again previewHandle cx) =
           (Inr content,
            [ConsoleError (LogMsg (''Preview layout '' @ previewHandle @ '' not found.'')),
             ConsoleError (LogMsg (''Preview layout '' @ previewHandle @ '' not found.''))])"
proof -
  have once: "wrapInLayout src c previewHandle cx =
      (Inr c, [ConsoleError (LogMsg (''Preview layout '' @ previewHandle @ '' not found.''))])"
    for c
    using assms by (simp add: wrapInLayout_def swallow)
  show ?thesis
    by (simp only: once and_then_ok [OF once] fst_conv snd_conv append.simps) simp
qed

lemma renderVariant_content_fail:
  "v_content v = Inl err \<Longrightarrow> renderVariant src v cx = (Inl err, [])"
  by (simp add: renderVariant_def)

lemma renderVariant_resolve_fail:
  "v_content v = Inr content \<Longrightarrow> src_resolve src (js_or cx (v_context v)) = Inl err \<Longrightarrow>
   renderVariant src v cx = (Inl err, [])"
  by (simp add: renderVariant_def)

lemma renderVariant_engine:
  "v_content v = Inr content \<Longrightarrow> src_resolve src (js_or cx (v_context v)) = Inr ctx \<Longrightarrow>
   renderVariant src v cx =
     (src_engine src (Some (v_viewPath v)) content (JObj (set_prop ctx ''_self'' (v_json v))),
      [EngineRender (Some (v_viewPath v)) content (JObj (set_prop ctx ''_self'' (v_json v)))])"
  by (simp add: renderVariant_def engine_render_def Let_def)


lemma map_of_set_prop:
  "map_of (set_prop kvs k v) k' = (if k' = k then Some v else map_of kvs k')"
  by (induction kvs) auto

lemma get_set_prop:
  "get_prop (JObj (set_prop kvs k v)) k' = (if k' = k then v else get_prop (JObj kvs) k')"
  by (simp add: map_of_set_prop)

lemma get_defaults:
  "distinct (map fst src) \<Longrightarrow>
   get_prop (JObj (defaults dest src)) k =
     (if get_prop (JObj dest) k \<noteq> JUndefined then get_prop (JObj dest) k
      else get_prop (JObj src) k)"
proof (induction src arbitrary: dest)
  case Nil
  then show ?case by simp
next
  case (Cons kv src)
  obtain k' v' where kv: "kv = (k', v')" by (cases kv)
  from Cons.prems kv have d: "distinct (map fst src)" and fresh: "map_of src k' = None"
    by (auto simp: map_of_eq_None_iff)
  let ?dest = "if get_prop (JObj dest) k' = JUndefined then set_prop dest k' v' else dest"
  have ih: "get_prop (JObj (defaults ?dest src)) k =
     (if get_prop (JObj ?dest) k \<noteq> JUndefined then get_prop (JObj ?dest) k
      else get_prop (JObj src) k)"
    by (rule Cons.IH [OF d])
  show ?case
  proof (cases "k = k'")
    case True
    then show ?thesis using ih fresh kv
      by (simp add: map_of_set_prop split: option.splits)
  next
    case False
    then show ?thesis using ih kv
      by (simp add: map_of_set_prop split: option.splits)
  qed
qed

text \<open>
  C6 (as amended). When the layout is found (a variant, or a component with its
  default variant), its context resolves and its content loads, the engine is called
  once, with the merged context after the rendered markup has been stored under the
  yield key. In the merged context every key that has a value other than \<^verbatim>\<open>undefined\<close>
  in the resolved context of the layout has that value, and every other key (absent
  there, or present with the value \<^verbatim>\<open>undefined\<close>) has the value of the context supplied
  by the caller.
\<close>

theorem wrapInLayout_merges:
  assumes found: "src_find src previewHandle = Some (Variant layout)
      \<or> (\<exists>c. src_find src previewHandle = Some (Component c) \<and> default_variant c = Some layout)"
    and res: "src_resolve src (v_context layout) = Inr layoutContext"
    and body: "v_content layout = Inr layoutContent"
    and keys: "distinct (map fst cx)"
  shows "\<exists>merged.
      (\<forall>k. get_prop (JObj merged) k =
         (if get_prop (JObj layoutContext) k \<noteq> JUndefined then get_prop (JObj layoutContext) k
          else get_prop (JObj cx) k))
      \<and> wrapInLayout src content previewHandle cx =
          (src_engine src (Some (v_viewPath layout)) layoutContent
             (JObj (set_prop merged (src_yield src) (JStr content))),
           [EngineRender (Some (v_viewPath layout)) layoutContent
             (JObj (set_prop merged (src_yield src) (JStr content)))])
      \<and> (\<forall>k. get_prop (JObj (set_prop merged (src_yield src) (JStr content))) k =
           (if k = src_yield src then JStr content else get_prop (JObj merged) k))"
proof (intro exI [of _ "defaults layoutContext cx"] conjI allI)
  fix k
  show "get_prop (JObj (defaults layoutContext cx)) k =
         (if get_prop (JObj layoutContext) k \<noteq> JUndefined then get_prop (JObj layoutContext) k
          else get_prop (JObj cx) k)"
    by (rule get_defaults [OF keys])
next
  show "wrapInLayout src content previewHandle cx =
          (src_engine src (Some (v_viewPath layout)) layoutContent
             (JObj (set_prop (defaults layoutContext cx) (src_yield src) (JStr content))),
           [EngineRender (Some (v_viewPath layout)) layoutContent
             (JObj (set_prop (defaults layoutContext cx) (src_yield src) (JStr content)))])"
    using found res body
    by (auto simp: wrapInLayout_def engine_render_def Let_def)
next
  fix k
  show "get_prop (JObj (set_prop (defaults layoutContext cx) (src_yield src) (JStr content))) k =
           (if k = src_yield src then JStr content
            else get_prop (JObj (defaults layoutContext cx)) k)"
    by (rule get_set_prop)
qed

lemma renderVariant_calls:
  "EngineRender p str c \<in> set (snd (renderVariant src v cx)) \<Longrightarrow>
     get_prop c ''_self'' = v_json v"
proof (cases "v_content v")
  case (Inl err)
  assume "EngineRender p str c \<in> set (snd (renderVariant src v cx))"
  then show ?thesis using Inl by (simp add: renderVariant_content_fail)
next
  case (Inr content)
  assume call: "EngineRender p str c \<in> set (snd (renderVariant src v cx))"
  show ?thesis
  proof (cases "src_resolve src (js_or cx (v_context v))")
    case (Inl err)
    then show ?thesis using Inr call by (simp add: renderVariant_resolve_fail [of v content])
  next
    case ctx: (Inr ctx)
    show ?thesis
      using call by (simp add: renderVariant_engine [OF Inr ctx] map_of_set_prop)
  qed
qed

lemma render_Path:
  "render src sched (Path filename) cx opts =
     (if filename = [] then (Inl RejectNull, [])
      else case src_readFile src filename of
             Inl e \<Rightarrow> (Inl e, [])
           | Inr content \<Rightarrow>
               (case src_engine src (Some filename) content cx of
                  Inl e \<Rightarrow> Inl e
                | Inr markup \<Rightarrow> Inr (JStr markup),
                [EngineRender (Some filename) content cx]))"
proof (cases "src_readFile src filename")
  case (Inl e)
  then show ?thesis by (simp add: render.simps rejected_def)
next
  case (Inr content)
  then show ?thesis
    by (cases "src_engine src (Some filename) content cx")
       (simp_all add: render.simps rejected_def engine_render_def resolved_def)
qed

lemma render_Path_calls:
  "EngineRender p str c \<in> set (snd (render src sched (Path filename) cx opts)) \<Longrightarrow>
     p = Some filename \<and> c = cx"
  by (simp add: render_Path split: if_splits sum.splits)

lemma render_Path_ok:
  "filename \<noteq> [] \<Longrightarrow> src_readFile src filename = Inr content \<Longrightarrow>
   snd (render src sched (Path filename) cx opts) = [EngineRender (Some filename) content cx]"
  by (simp add: render_Path)

lemma wrapInLayout_calls:
  "EngineRender p str c \<in> set (snd (wrapInLayout src content previewHandle target)) \<Longrightarrow>
   \<exists>layout layoutContext.
     (src_find src previewHandle = Some (Variant layout)
      \<or> (\<exists>comp. src_find src previewHandle = Some (Component comp)
            \<and> default_variant comp = Some layout))
     \<and> src_resolve src (v_context layout) = Inr layoutContext
     \<and> p = Some (v_viewPath layout)
     \<and> c = JObj (set_prop (defaults layoutContext target) (src_yield src) (JStr content))"
  by (auto simp: wrapInLayout_def engine_render_def Let_def and_then_def await_def
        console_error_def resolved_def rejected_def
      split: option.splits entity.splits sum.splits prod.splits)

text \<open>
  C4 (as amended). Every call of the engine that the rendering of a variant makes
  passes a context whose \<^verbatim>\<open>_self\<close> is the serialized variant. The other calls add no
  \<^verbatim>\<open>_self\<close>: \<^verbatim>\<open>renderString\<close> and the rendering of a template path pass the context they
  were given, and a layout wrap passes the resolved context of the layout, filled
  from the context of the caller, with the markup under the yield key.
\<close>

theorem engine_call_contexts:
  "(\<forall>p str c. EngineRender p str c \<in> set (snd (renderVariant src v cx)) \<longrightarrow>
      get_prop c ''_self'' = v_json v)
   \<and> snd (renderString src template cx) = [EngineRender None template cx]
   \<and> (\<forall>p str c. EngineRender p str c \<in> set (snd (render src sched (Path filename) cx opts)) \<longrightarrow>
        p = Some filename \<and> c = cx)
   \<and> (\<forall>source. filename \<noteq> [] \<and> src_readFile src filename = Inr source \<longrightarrow>
        snd (render src sched (Path filename) cx opts) = [EngineRender (Some filename) source cx])
   \<and> (\<forall>p str c.
        EngineRender p str c \<in> set (snd (wrapInLayout src content previewHandle target)) \<longrightarrow>
        (\<exists>layout layoutContext.
           (src_find src previewHandle = Some (Variant layout)
            \<or> (\<exists>comp. src_find src previewHandle = Some (Component comp)
                  \<and> default_variant comp = Some layout))
           \<and> src_resolve src (v_context layout) = Inr layoutContext
           \<and> p = Some (v_viewPath layout)
           \<and> c = JObj (set_prop (defaults layoutContext target) (src_yield src)
                        (JStr content))))"
proof (intro conjI allI impI)
  fix p str c
  assume "EngineRender p str c \<in> set (snd (renderVariant src v cx))"
  then show "get_prop c ''_self'' = v_json v" by (rule renderVariant_calls)
next
  show "snd (renderString src template cx) = [EngineRender None template cx]"
    by (simp add: renderString_def engine_render_def)
next
  fix p str c
  assume "EngineRender p str c \<in> set (snd (render src sched (Path filename) cx opts))"
  then show "p = Some filename" and "c = cx" using render_Path_calls by blast+
next
  fix source
  assume "filename \<noteq> [] \<and> src_readFile src filename = Inr source"
  then show "snd (render src sched (Path filename) cx opts) = [EngineRender (Some filename) source cx]"
    by (simp add: render_Path_ok)
next
  fix p str c
  assume "EngineRender p str c \<in> set (snd (wrapInLayout src content previewHandle target))"
  then show "\<exists>layout layoutContext.
           (src_find src previewHandle = Some (Variant layout)
            \<or> (\<exists>comp. src_find src previewHandle = Some (Component comp)
                  \<and> default_variant comp = Some layout))
           \<and> src_resolve src (v_context layout) = Inr layoutContext
           \<and> p = Some (v_viewPath layout)
           \<and> c = JObj (set_prop (defaults layoutContext target) (src_yield src)
                        (JStr content))"
    by (rule wrapInLayout_calls)
qed

section \<open>Verification: status registry\<close>

lemma uniq_loop_first:
  "uniq_loop res xs = res @ first_occurrences (filter (\<lambda>y. y \<notin> set res) xs)"
proof (induction xs arbitrary: res)
  case Nil
  then show ?case by simp
next
  case (Cons x xs)
  show ?case
  proof (cases "x \<in> set res")
    case True
    then show ?thesis using Cons.IH [of res] by simp
  next
    case False
    have "filter (\<lambda>y. y \<notin> set (res @ [x])) xs =
          filter (\<lambda>y. y \<noteq> x) (filter (\<lambda>y. y \<notin> set res) xs)"
      by (induction xs) auto
    then show ?thesis using False Cons.IH [of "res @ [x]"] by simp
  qed
qed

lemma uniq_first: "uniq xs = first_occurrences xs"
  by (simp add: uniq_def uniq_loop_first)

lemma first_occurrences_set: "set (first_occurrences xs) = set xs"
  by (induction xs rule: first_occurrences.induct) auto

lemma first_occurrences_distinct: "distinct (first_occurrences xs)"
  by (induction xs rule: first_occurrences.induct) (auto simp: first_occurrences_set)

lemma compact_filter: "compact rs = filter (\<lambda>r. r \<noteq> RNull \<and> r \<noteq> RUndefined) rs"
proof (induction rs)
  case Nil
  then show ?case by simp
next
  case (Cons r rs)
  then show ?case by (cases r) simp_all
qed

text \<open>
  C8. \<^verbatim>\<open>statusInfo\<close> of \<^verbatim>\<open>undefined\<close> and of the empty list is \<^verbatim>\<open>null\<close>. On a list of
  handles the deduplication keeps the first occurrence of each handle (the result is
  duplicate-free and has the same elements); when one distinct handle remains the
  call is the call on that handle; otherwise the result is the mixed record, every
  field as in the taxonomy, with a \<^verbatim>\<open>statuses\<close> field that lists what the distinct
  handles resolve to, in first-occurrence order, without the resolutions that are
  \<^verbatim>\<open>null\<close> or \<^verbatim>\<open>undefined\<close>.
\<close>

theorem statusInfo_list:
  "statusInfo t (One HUndefined) = (RNull, [])
   \<and> statusInfo t (Many []) = (RNull, [])
   \<and> uniq hs = first_occurrences hs
   \<and> distinct (uniq hs) \<and> set (uniq hs) = set hs
   \<and> (\<forall>h. first_occurrences hs = [h] \<longrightarrow> statusInfo t (Many hs) = statusInfo t (One h))
   \<and> (hs \<noteq> [] \<and> length (first_occurrences hs) \<noteq> 1 \<longrightarrow>
        (\<exists>m. fst (statusInfo t (Many hs)) = RStatus m
           \<and> s_handle m = s_handle (st_mixed t)
           \<and> s_label m = s_label (st_mixed t)
           \<and> s_fields m = s_fields (st_mixed t)
           \<and> s_statuses m =
               Some (filter (\<lambda>r. r \<noteq> RNull \<and> r \<noteq> RUndefined)
                       (map (\<lambda>h. fst (statusInfo t (One h))) (first_occurrences hs)))))"
proof -
  have one: "statusInfo t (Many hs) = statusInfo t (One h)" if "first_occurrences hs = [h]" for h
  proof -
    have "hs \<noteq> []" using that by auto
    then show ?thesis using that by (simp add: Let_def uniq_first)
  qed
  show ?thesis
    using one
    by (simp add: uniq_first first_occurrences_distinct first_occurrences_set
        with_statuses_def Let_def compact_filter)
qed

text \<open>
  C9 (as amended). A handle that is not the mixed handle, is not a key of the options
  and is not the name of a member the options object inherits, is logged as unknown
  and resolves to the default option; \<^verbatim>\<open>statusInfo\<close> has no failing outcome at all.
  This is what \<^verbatim>\<open>statusInfo\<close> of the default handle returns provided the default handle
  is not the mixed handle.
\<close>

theorem statusInfo_unknown:
  assumes "h \<noteq> s_handle (st_mixed t)" and "map_of (st_options t) h = None"
    and "h \<notin> set object_prototype_members"
  shows "statusInfo t (One (HStr h)) =
           (option_of t (st_default t),
            [ConsoleError (LogMsg (''Status '' @ h @ '' is not a known option.''))])
         \<and> (st_default t \<noteq> s_handle (st_mixed t) \<longrightarrow>
              fst (statusInfo t (One (HStr h))) =
              fst (statusInfo t (One (HStr (st_default t)))))"
  using assms by (simp add: option_of_def)

section \<open>Verification: file classifier\<close>

lemma ends_with_drop: "\<exists>z. drop n s = z @ e \<Longrightarrow> \<exists>z. s = z @ e"
proof -
  assume "\<exists>z. drop n s = z @ e"
  then obtain z where "drop n s = z @ e" ..
  then have "s = (take n s @ z) @ e" by (metis append_take_drop_id append.assoc)
  then show ?thesis ..
qed

lemma lit_end: "glob_match [Lit e] s \<Longrightarrow> s = e"
proof -
  assume "glob_match [Lit e] s"
  then have "take (length e) s = e" and "length s \<le> length e" by simp_all
  then show ?thesis by (metis take_all)
qed

lemma glob_ends_with_literal: "glob_match (g @ [Lit e]) s \<Longrightarrow> \<exists>z. s = z @ e"
proof (induction g arbitrary: s)
  case Nil
  then have "s = e" using lit_end by simp
  then show ?case by simp
next
  case (Cons tok g)
  have step: "\<exists>z. s = z @ e" if "glob_match (g @ [Lit e]) (drop n s)" for n
    using Cons.IH [OF that] by (rule ends_with_drop)
  show ?case
  proof (cases tok)
    case GlobStarSlash
    with Cons.prems have "glob_match (GlobStarSlash # (g @ [Lit e])) s" by simp
    then have "glob_match (g @ [Lit e]) (drop 0 s)
        \<or> (\<exists>n. glob_match (g @ [Lit e]) (drop (Suc n) s))"
      unfolding glob_match.simps list_ex_iff by auto
    then show ?thesis using step by blast
  next
    case Star
    with Cons.prems have "glob_match (Star # (g @ [Lit e])) s" by simp
    then have "\<exists>n. glob_match (g @ [Lit e]) (drop n s)"
      unfolding glob_match.simps list_ex_iff by blast
    then show ?thesis using step by blast
  next
    case (Lit l)
    with Cons.prems have "glob_match (g @ [Lit e]) (drop (length l) s)" by simp
    then show ?thesis using step by blast
  next
    case (Braces ls)
    with Cons.prems have "glob_match (Braces ls # (g @ [Lit e])) s" by simp
    then have "\<exists>n. glob_match (g @ [Lit e]) (drop n s)"
      unfolding glob_match.simps list_ex_iff by blast
    then show ?thesis using step by blast
  qed
qed

lemma star_literal: "CHR ''/'' \<notin> set x \<Longrightarrow> glob_match [Star, Lit e] (x @ e)"
proof -
  assume "CHR ''/'' \<notin> set x"
  then have "CHR ''/'' \<notin> set (take (length x) (x @ e)) \<and> glob_match [Lit e] (drop (length x) (x @ e))"
    by simp
  moreover have "length x \<in> set [0..<Suc (length (x @ e))]" by simp
  ultimately show ?thesis
    unfolding glob_match.simps list_ex_iff by blast
qed

lemma view_glob_suffix: "glob_match [GlobStarSlash, Star, Lit e] (z @ e)"
proof (cases "CHR ''/'' \<in> set z")
  case False
  then have "glob_match [Star, Lit e] (z @ e)" by (rule star_literal)
  then show ?thesis by simp
next
  case True
  then obtain d x where z: "z = d @ CHR ''/'' # x" and x: "CHR ''/'' \<notin> set x"
    using split_list_last [of "CHR ''/''" z] by blast
  have "glob_match [Star, Lit e] (x @ e)" using x by (rule star_literal)
  then have "(z @ e) ! length d = CHR ''/'' \<and> glob_match [Star, Lit e] (drop (Suc (length d)) (z @ e))"
    by (simp add: z nth_append)
  moreover have "length d \<in> set [0..<length (z @ e)]" by (simp add: z)
  ultimately have "list_ex (\<lambda>n. (z @ e) ! n = CHR ''/'' \<and> glob_match [Star, Lit e] (drop (Suc n) (z @ e)))
      [0..<length (z @ e)]"
    unfolding list_ex_iff by blast
  then show ?thesis by (simp only: glob_match.simps(5)) simp
qed

lemma varview_is_view:
  "glob_match (varview_glob src) s \<Longrightarrow> glob_match (view_glob src) s"
proof -
  assume "glob_match (varview_glob src) s"
  then have "glob_match ([GlobStarSlash, Star, Lit (src_splitter src), Star] @ [Lit (src_ext src)]) s"
    by (simp add: varview_glob_def)
  then obtain z where "s = z @ src_ext src"
    using glob_ends_with_literal by blast
  then show ?thesis by (simp only: view_glob_def view_glob_suffix)
qed

text \<open>
  C10. No path is both a view and a variant view, and a path that is a view, a
  variant view, a configuration file or a readme is not an asset.
\<close>

theorem classifier_exclusive:
  "\<not> (isView src f \<and> isVarView src f)
   \<and> (isView src f \<or> isVarView src f \<or> isConfig src f \<or> isReadme src f \<longrightarrow> \<not> isAsset src f)"
  using varview_is_view [of src "toLowerCase (path f)"]
  by (auto simp: isView_def isVarView_def isConfig_def isReadme_def isAsset_def anymatch_def)

section \<open>Verification: collated render\<close>

lemma failures_none: "\<forall>r\<in>set rs. \<exists>x. r = Inr x \<Longrightarrow> failures rs = []"
  by (induction rs rule: failures.induct) auto

lemma successes_all: "list_all2 (\<lambda>t m. fst t = Inr m) tasks ms \<Longrightarrow> successes (map fst tasks) = ms"
  by (induction rule: list_all2_induct) auto

lemma completion_order_bound: "i \<in> set (completion_order n sched) \<Longrightarrow> i < n"
  by (auto simp: completion_order_def uniq_first first_occurrences_set)

lemma completion_order_complete: "i < n \<Longrightarrow> i \<in> set (completion_order n sched)"
  by (auto simp: completion_order_def uniq_first first_occurrences_set)

lemma completion_order_distinct: "distinct (completion_order n sched)"
  by (auto simp: completion_order_def uniq_first first_occurrences_set first_occurrences_distinct)

lemma promise_all_ok:
  assumes "list_all2 (\<lambda>t m. fst t = Inr m) tasks ms"
  shows "fst (promise_all sched tasks) = Inr ms"
proof -
  have "\<exists>x. fst (tasks ! i) = Inr x" if "i < length tasks" for i
    using assms that by (auto simp: list_all2_conv_all_nth)
  then have "\<forall>r\<in>set (map (\<lambda>i. fst (tasks ! i)) (completion_order (length tasks) sched)).
      \<exists>x. r = Inr x"
    using completion_order_bound by fastforce
  then have "failures (map (\<lambda>i. fst (tasks ! i)) (completion_order (length tasks) sched)) = []"
    by (rule failures_none)
  then show ?thesis
    by (simp add: promise_all_def Let_def successes_all [OF assms])
qed

lemma render_Variant_sched:
  "render src sched (Entity (Variant v)) cx opts = render src sched' (Entity (Variant v)) cx opts"
  by (simp add: render_Entity pipeline.simps)

lemma get_prop_or_empty: "get_prop (js_or cx (JObj [])) k = get_prop cx k"
  by (cases cx) (simp_all add: js_or_def)

lemma collate_variant_ok:
  assumes "src_resolve src (variant_context cx v) = Inr rc"
    and "fst (rend v (JObj rc)) = Inr markup"
    and "case src_collator src of None \<Rightarrow> m = markup | Some collator \<Rightarrow> collator markup v = Inr m"
  shows "fst (collate_variant src rend cx v) = Inr m"
proof -
  have "fst (case src_collator src of Some collator \<Rightarrow> await (collator markup v)
        | None \<Rightarrow> resolved markup) = Inr m"
    using assms(3) by (simp add: await_def resolved_def split: option.splits)
  then show ?thesis
    using assms(1,2) by (simp add: collate_variant_def fst_and_then_ok)
qed

text \<open>
  C2 (as amended). For a collated component whose per-variant steps all succeed, and
  with no layout step, \<^verbatim>\<open>render\<close> resolves with the per-variant markups joined by a
  newline in the declared order of the variants, whatever the order in which the
  per-variant renders settle. The markup of a variant is made as follows: its context
  is the value of the supplied context under \<^verbatim>\<open>@handle\<close> when that value is truthy and
  the stored context of the variant otherwise; the context is resolved and the
  variant rendered with it through \<^verbatim>\<open>render\<close>; with a collator configured, the value of
  the collator on that markup and the variant takes its place.
\<close>

theorem collated_render_joins_in_order:
  assumes coll: "c_collated c"
    and load: "src_load src = Inr ()"
    and plain: "\<not> use_layout opts \<or> c_preview c = None \<or> c_preview c = Some []"
    and pieces: "list_all2
      (\<lambda>v m. \<exists>rc markup.
         src_resolve src
           (if truthy (get_prop cx (''@'' @ v_handle v)) then get_prop cx (''@'' @ v_handle v)
            else v_context v) = Inr rc
         \<and> fst (render src [] (Entity (Variant v)) (JObj rc) None) = Inr markup
         \<and> (case src_collator src of
               None \<Rightarrow> m = markup
             | Some collator \<Rightarrow> collator markup v = Inr m))
      (c_variants c) ms"
  shows "fst (render src sched (Entity (Component c)) cx opts) =
           Inr (JStr (js_join [CHR 0x0A] ms))"
proof -
  let ?rend = "\<lambda>variant ctx. render src sched (Entity (Variant variant)) ctx None"
  let ?cx = "js_or cx (JObj [])"
  have vc: "variant_context ?cx v =
      (if truthy (get_prop cx (''@'' @ v_handle v)) then get_prop cx (''@'' @ v_handle v)
       else v_context v)" for v
  proof -
    have "variant_context ?cx v = js_or (get_prop cx (''@'' @ v_handle v)) (v_context v)"
      by (simp only: variant_context_def get_prop_or_empty)
    then show ?thesis by (simp only: js_or_def)
  qed
  have "list_all2 (\<lambda>v m. fst (collate_variant src ?rend ?cx v) = Inr m) (c_variants c) ms"
    using pieces
  proof (rule list_all2_mono)
    fix v m
    assume "\<exists>rc markup.
         src_resolve src
           (if truthy (get_prop cx (''@'' @ v_handle v)) then get_prop cx (''@'' @ v_handle v)
            else v_context v) = Inr rc
         \<and> fst (render src [] (Entity (Variant v)) (JObj rc) None) = Inr markup
         \<and> (case src_collator src of
               None \<Rightarrow> m = markup
             | Some collator \<Rightarrow> collator markup v = Inr m)"
    then obtain rc markup where
      r: "src_resolve src (variant_context ?cx v) = Inr rc"
      and k: "fst (render src [] (Entity (Variant v)) (JObj rc) None) = Inr markup"
      and f: "case src_collator src of None \<Rightarrow> m = markup
              | Some collator \<Rightarrow> collator markup v = Inr m"
      unfolding vc by blast
    have k': "fst (?rend v (JObj rc)) = Inr markup"
      using k render_Variant_sched [of src sched v "JObj rc" None "[]"] by simp
    show "fst (collate_variant src ?rend ?cx v) = Inr m"
      by (rule collate_variant_ok [where rend = ?rend, OF r k' f])
  qed
  then have "list_all2 (\<lambda>t m. fst t = Inr m) (map (collate_variant src ?rend ?cx) (c_variants c)) ms"
    by (simp add: list_all2_map1)
  then have "fst (promise_all sched (map (collate_variant src ?rend ?cx) (c_variants c))) = Inr ms"
    by (rule promise_all_ok)
  then have joined: "fst (renderCollatedComponent src ?rend sched c cx) = Inr (js_join [CHR 0x0A] ms)"
    by (simp add: renderCollatedComponent_def Let_def fst_and_then_ok resolved_def)
  have fin: "finish src (use_layout opts) (Component c) rendered = resolved (JStr rendered)"
    for rendered
    using plain by (auto simp: finish_def split: option.splits)
  have "fst (pipeline src sched (Component c) cx (use_layout opts)) =
          Inr (JStr (js_join [CHR 0x0A] ms))"
    using coll load joined
    by (simp add: pipeline.simps fst_and_then_ok fin resolved_def)
  then show ?thesis
    by (cases "pipeline src sched (Component c) cx (use_layout opts)")
       (simp add: render_Entity)
qed

section \<open>The theorems on the example catalog\<close>


theorem render_default_variant_witness:
  "\<not> c_collated plain_card \<and> c_defaultIndex plain_card < length (c_variants plain_card)
   \<and> c_variants plain_card ! c_defaultIndex plain_card = variant_a
   \<and> render example_source [] (Entity (Component plain_card)) JUndefined
        (Some \<lparr>useLayout = True\<rparr>) =
      render example_source [] (Entity (Variant variant_a)) JUndefined
        (Some \<lparr>useLayout = True\<rparr>)
   \<and> fst (render example_source [] (Entity (Variant variant_a)) JUndefined
        (Some \<lparr>useLayout = True\<rparr>)) = Inr (JStr ''L:xA'')"
proof -
  have a: "\<not> c_collated plain_card" by (simp add: plain_card_def)
  have b: "c_defaultIndex plain_card < length (c_variants plain_card)" by (simp add: plain_card_def)
  have c: "c_variants plain_card ! c_defaultIndex plain_card = variant_a" by (simp add: plain_card_def)
  have d: "fst (render example_source [] (Entity (Variant variant_a)) JUndefined
        (Some \<lparr>useLayout = True\<rparr>)) = Inr (JStr ''L:xA'')"
    by code_simp
  show ?thesis
    using a b c d
      render_default_variant [OF a b, of example_source "[]" JUndefined "Some \<lparr>useLayout = True\<rparr>"]
    by simp
qed

text \<open>
  \<^verbatim>\<open>renderString\<close> does not resolve the context: with a resolver that expands \<^verbatim>\<open>@ref\<close>,
  the engine still receives \<^verbatim>\<open>@ref\<close>, where the specification's reading has it
  receive the expansion.
\<close>

theorem renderString_counterexample:
  "fst (renderString example_source ''t'' (JObj [(''title'', JStr ''@ref'')])) = Inr ''t@ref''
   \<and> fst (renderString_spec example_source ''t'' (JObj [(''title'', JStr ''@ref'')])) =
       Inr ''texpanded''
   \<and> snd (renderString example_source ''t'' (JObj [(''title'', JStr ''@ref'')])) =
       [EngineRender None ''t'' (JObj [(''title'', JStr ''@ref'')])]
   \<and> snd (renderString_spec example_source ''t'' (JObj [(''title'', JStr ''@ref'')])) =
       [EngineRender None ''t'' (JObj [(''title'', JStr ''expanded'')])]"
  by (simp add: renderString_def renderString_spec_def engine_render_def example_source_def
      example_engine_def example_resolve_def)

theorem wrapInLayout_missing_witness:
  "src_find example_source ''@missing'' = None
   \<and> wrapInLayout example_source ''xA'' ''@missing'' [(''_target'', JNull)] =
       (Inr ''xA'', [ConsoleError (LogMsg ''Preview layout @missing not found.'')])"
proof -
  have a: "src_find example_source ''@missing'' = None" by (simp add: example_source_def)
  show ?thesis
    using a wrapInLayout_missing [OF a, of "''xA''" "[(''_target'', JNull)]"] by simp
qed

theorem wrapInLayout_merges_witness:
  "wrapInLayout example_source ''xA'' ''@owned''
     [(''_target'', JObj [(''handle'', JStr ''a'')]), (''theme'', JStr ''dark'')] =
     (Inr ''O:xA'',
      [EngineRender (Some ''owned.hbs'') ''O:''
         (JObj [(''lang'', JStr ''en''), (''_target'', JStr ''own''),
                (''theme'', JStr ''dark''), (''yield'', JStr ''xA'')])])
   \<and> (\<exists>merged. get_prop (JObj merged) ''lang'' = JStr ''en''
         \<and> get_prop (JObj merged) ''_target'' = JStr ''own''
         \<and> get_prop (JObj merged) ''theme'' = JStr ''dark''
         \<and> snd (wrapInLayout example_source ''xA'' ''@owned''
                  [(''_target'', JObj [(''handle'', JStr ''a'')]), (''theme'', JStr ''dark'')]) =
             [EngineRender (Some ''owned.hbs'') ''O:''
                (JObj (set_prop merged ''yield'' (JStr ''xA'')))])"
proof -
  let ?given = "[(''_target'', JObj [(''handle'', JStr ''a'')]), (''theme'', JStr ''dark'')]"
  let ?own = "[(''lang'', JStr ''en''), (''_target'', JStr ''own'')]"
  have f: "src_find example_source ''@owned'' = Some (Variant owning_layout)
      \<or> (\<exists>c. src_find example_source ''@owned'' = Some (Component c)
            \<and> default_variant c = Some owning_layout)"
    by (simp add: example_source_def)
  have r: "src_resolve example_source (v_context owning_layout) = Inr ?own"
    by (simp add: example_source_def owning_layout_def example_resolve_def)
  have b: "v_content owning_layout = Inr ''O:''" by (simp add: owning_layout_def)
  have k: "distinct (map fst ?given)" by simp
  have e: "wrapInLayout example_source ''xA'' ''@owned'' ?given =
     (Inr ''O:xA'',
      [EngineRender (Some ''owned.hbs'') ''O:''
         (JObj [(''lang'', JStr ''en''), (''_target'', JStr ''own''),
                (''theme'', JStr ''dark''), (''yield'', JStr ''xA'')])])"
    by code_simp
  from wrapInLayout_merges [OF f r b k, of "''xA''"]
  obtain merged where m: "\<forall>k. get_prop (JObj merged) k =
         (if get_prop (JObj ?own) k \<noteq> JUndefined then get_prop (JObj ?own) k
          else get_prop (JObj ?given) k)"
    and w: "wrapInLayout example_source ''xA'' ''@owned'' ?given =
          (src_engine example_source (Some (v_viewPath owning_layout)) ''O:''
             (JObj (set_prop merged (src_yield example_source) (JStr ''xA''))),
           [EngineRender (Some (v_viewPath owning_layout)) ''O:''
             (JObj (set_prop merged (src_yield example_source) (JStr ''xA'')))])"
    by (elim exE conjE)
  have 1: "get_prop (JObj merged) ''lang'' = JStr ''en''" using m by simp
  have 2: "get_prop (JObj merged) ''_target'' = JStr ''own''" using m by simp
  have 3: "get_prop (JObj merged) ''theme'' = JStr ''dark''" using m by simp
  have 4: "snd (wrapInLayout example_source ''xA'' ''@owned'' ?given) =
             [EngineRender (Some ''owned.hbs'') ''O:''
                (JObj (set_prop merged ''yield'' (JStr ''xA'')))]"
  proof -
    have y: "src_yield example_source = ''yield''" by (simp add: example_source_def)
    have vp: "v_viewPath owning_layout = ''owned.hbs''" by (simp add: owning_layout_def)
    show ?thesis unfolding w y vp by simp
  qed
  show ?thesis by (intro conjI exI [of _ merged] e 1 2 3 4)
qed

text \<open>
  A layout whose resolved context has the key \<^verbatim>\<open>_target\<close> with the value \<^verbatim>\<open>undefined\<close>: the
  key is present, yet the engine receives the \<^verbatim>\<open>_target\<close> of the caller.
\<close>

theorem layout_merge_counterexample:
  "src_resolve example_source (v_context hollow_layout) =
     Inr [(''_target'', JUndefined), (''lang'', JStr ''en'')]
   \<and> map_of [(''_target'', JUndefined), (''lang'', JStr ''en'')] ''_target'' = Some JUndefined
   \<and> wrapInLayout example_source ''xA'' ''@hollow''
        [(''_target'', JObj [(''handle'', JStr ''a'')])] =
       (Inr ''H:xA'',
        [EngineRender (Some ''hollow.hbs'') ''H:''
           (JObj [(''_target'', JObj [(''handle'', JStr ''a'')]), (''lang'', JStr ''en''),
                  (''yield'', JStr ''xA'')])])"
  by code_simp

theorem engine_call_contexts_witness:
  "snd (renderVariant example_source variant_a JUndefined) =
     [EngineRender (Some ''card/a.hbs'') ''x''
        (JObj [(''title'', JStr ''A''), (''_self'', JObj [(''handle'', JStr ''a'')])])]
   \<and> get_prop (JObj [(''title'', JStr ''A''), (''_self'', JObj [(''handle'', JStr ''a'')])]) ''_self'' =
       v_json variant_a
   \<and> snd (renderString example_source ''t'' (JObj [(''title'', JStr ''T'')])) =
       [EngineRender None ''t'' (JObj [(''title'', JStr ''T'')])]
   \<and> snd (render example_source [] (Path ''page.hbs'') (JObj [(''title'', JStr ''T'')]) None) =
       [EngineRender (Some ''page.hbs'') ''P:'' (JObj [(''title'', JStr ''T'')])]
   \<and> snd (wrapInLayout example_source ''xA'' ''@preview''
            [(''_target'', JObj [(''handle'', JStr ''a'')])]) =
       [EngineRender (Some ''preview.hbs'') ''L:''
          (JObj [(''lang'', JStr ''en''), (''_target'', JObj [(''handle'', JStr ''a'')]),
                 (''yield'', JStr ''xA'')])]
   \<and> (\<exists>(layout :: variant) layoutContext.
         src_resolve example_source (v_context layout) = Inr layoutContext
         \<and> JObj [(''lang'', JStr ''en''), (''_target'', JObj [(''handle'', JStr ''a'')]),
                 (''yield'', JStr ''xA'')] =
             JObj (set_prop (defaults layoutContext [(''_target'', JObj [(''handle'', JStr ''a'')])])
                     ''yield'' (JStr ''xA'')))"
proof -
  note th = engine_call_contexts
    [where src = example_source and v = variant_a and cx = JUndefined
       and template = "''t''" and filename = "''page.hbs''" and sched = "[]" and opts = None
       and content = "''xA''" and previewHandle = "''@preview''"
       and target = "[(''_target'', JObj [(''handle'', JStr ''a'')])]"]
  note tp = engine_call_contexts
    [where src = example_source and v = variant_a and cx = "JObj [(''title'', JStr ''T'')]"
       and template = "''t''" and filename = "''page.hbs''" and sched = "[]" and opts = None
       and content = "''xA''" and previewHandle = "''@preview''"
       and target = "[(''_target'', JObj [(''handle'', JStr ''a'')])]"]
  have e: "snd (renderVariant example_source variant_a JUndefined) =
     [EngineRender (Some ''card/a.hbs'') ''x''
        (JObj [(''title'', JStr ''A''), (''_self'', JObj [(''handle'', JStr ''a'')])])]"
    by code_simp
  then have "EngineRender (Some ''card/a.hbs'') ''x''
        (JObj [(''title'', JStr ''A''), (''_self'', JObj [(''handle'', JStr ''a'')])])
      \<in> set (snd (renderVariant example_source variant_a JUndefined))"
    by simp
  with th have 1: "get_prop (JObj [(''title'', JStr ''A''), (''_self'', JObj [(''handle'', JStr ''a'')])]) ''_self'' =
       v_json variant_a"
    by blast
  from tp have 2: "snd (renderString example_source ''t'' (JObj [(''title'', JStr ''T'')])) =
       [EngineRender None ''t'' (JObj [(''title'', JStr ''T'')])]"
    by blast
  have rf: "''page.hbs'' \<noteq> [] \<and> src_readFile example_source ''page.hbs'' = Inr ''P:''"
    by (simp add: example_source_def)
  with tp have 3: "snd (render example_source [] (Path ''page.hbs'') (JObj [(''title'', JStr ''T'')]) None) =
       [EngineRender (Some ''page.hbs'') ''P:'' (JObj [(''title'', JStr ''T'')])]"
    by blast
  have 4: "snd (wrapInLayout example_source ''xA'' ''@preview''
            [(''_target'', JObj [(''handle'', JStr ''a'')])]) =
       [EngineRender (Some ''preview.hbs'') ''L:''
          (JObj [(''lang'', JStr ''en''), (''_target'', JObj [(''handle'', JStr ''a'')]),
                 (''yield'', JStr ''xA'')])]"
    by code_simp
  then have call: "EngineRender (Some ''preview.hbs'') ''L:''
          (JObj [(''lang'', JStr ''en''), (''_target'', JObj [(''handle'', JStr ''a'')]),
                 (''yield'', JStr ''xA'')])
      \<in> set (snd (wrapInLayout example_source ''xA'' ''@preview''
            [(''_target'', JObj [(''handle'', JStr ''a'')])]))"
    by simp
  note lay = tp [THEN conjunct2, THEN conjunct2, THEN conjunct2, THEN conjunct2, rule_format,
    OF call]
  from lay obtain layout :: variant and layoutContext where
    r: "src_resolve example_source (v_context layout) = Inr layoutContext"
    and c: "JObj [(''lang'', JStr ''en''), (''_target'', JObj [(''handle'', JStr ''a'')]),
                 (''yield'', JStr ''xA'')] =
       JObj (set_prop (defaults layoutContext [(''_target'', JObj [(''handle'', JStr ''a'')])])
               (src_yield example_source) (JStr ''xA''))"
    by (elim exE conjE)
  have y: "src_yield example_source = ''yield''" by (simp add: example_source_def)
  have 5: "\<exists>(layout :: variant) layoutContext.
         src_resolve example_source (v_context layout) = Inr layoutContext
         \<and> JObj [(''lang'', JStr ''en''), (''_target'', JObj [(''handle'', JStr ''a'')]),
                 (''yield'', JStr ''xA'')] =
             JObj (set_prop (defaults layoutContext [(''_target'', JObj [(''handle'', JStr ''a'')])])
                     ''yield'' (JStr ''xA''))"
  proof (intro exI conjI)
    show "src_resolve example_source (v_context layout) = Inr layoutContext" by (rule r)
    show "JObj [(''lang'', JStr ''en''), (''_target'', JObj [(''handle'', JStr ''a'')]),
                 (''yield'', JStr ''xA'')] =
             JObj (set_prop (defaults layoutContext [(''_target'', JObj [(''handle'', JStr ''a'')])])
                     ''yield'' (JStr ''xA''))"
      using c unfolding y .
  qed
  show ?thesis by (intro conjI e 1 2 3 4 5)
qed

text \<open>
  Not every call of the engine carries \<^verbatim>\<open>_self\<close>: the call that wraps a rendered variant
  in its layout passes \<^verbatim>\<open>lang\<close>, \<^verbatim>\<open>_target\<close> and the yield key, and \<^verbatim>\<open>renderString\<close> passes
  the context it was given.
\<close>

theorem engine_self_counterexample:
  "snd (render example_source [] (Entity (Variant variant_a)) JUndefined
          (Some \<lparr>useLayout = True\<rparr>)) =
     [EngineRender (Some ''card/a.hbs'') ''x''
        (JObj [(''title'', JStr ''A''), (''_self'', JObj [(''handle'', JStr ''a'')])]),
      EngineRender (Some ''preview.hbs'') ''L:''
        (JObj [(''lang'', JStr ''en''), (''_target'', JObj [(''handle'', JStr ''a'')]),
               (''yield'', JStr ''xA'')])]
   \<and> get_prop (JObj [(''lang'', JStr ''en''), (''_target'', JObj [(''handle'', JStr ''a'')]),
               (''yield'', JStr ''xA'')]) ''_self'' = JUndefined
   \<and> snd (renderString example_source ''t'' (JObj [(''title'', JStr ''T'')])) =
       [EngineRender None ''t'' (JObj [(''title'', JStr ''T'')])]
   \<and> get_prop (JObj [(''title'', JStr ''T'')]) ''_self'' = JUndefined"
  by code_simp

theorem statusInfo_list_witness:
  "first_occurrences [HStr ''ready'', HStr ''ready''] = [HStr ''ready'']
   \<and> statusInfo example_taxonomy (Many [HStr ''ready'', HStr ''ready'']) =
       statusInfo example_taxonomy (One (HStr ''ready''))
   \<and> first_occurrences [HStr ''ready'', HUndefined, HStr ''wip'', HStr ''ready''] =
       [HStr ''ready'', HUndefined, HStr ''wip'']
   \<and> fst (statusInfo example_taxonomy (One HUndefined)) = RNull
   \<and> (\<exists>m. fst (statusInfo example_taxonomy
              (Many [HStr ''ready'', HUndefined, HStr ''wip'', HStr ''ready''])) = RStatus m
        \<and> s_handle m = ''mixed''
        \<and> s_statuses m = Some [RStatus ready_status, RStatus wip_status])"
proof -
  have f1: "first_occurrences [HStr ''ready'', HStr ''ready''] = [HStr ''ready'']"
    by simp
  have f2: "first_occurrences [HStr ''ready'', HUndefined, HStr ''wip'', HStr ''ready''] =
       [HStr ''ready'', HUndefined, HStr ''wip'']"
    by simp
  note one = statusInfo_list [of example_taxonomy "[HStr ''ready'', HStr ''ready'']"]
  note two = statusInfo_list
    [of example_taxonomy "[HStr ''ready'', HUndefined, HStr ''wip'', HStr ''ready'']"]
  from one f1 have a: "statusInfo example_taxonomy (Many [HStr ''ready'', HStr ''ready'']) =
       statusInfo example_taxonomy (One (HStr ''ready''))" by blast
  have r: "fst (statusInfo example_taxonomy (One (HStr ''ready''))) = RStatus ready_status"
    and w: "fst (statusInfo example_taxonomy (One (HStr ''wip''))) = RStatus wip_status"
    and n: "fst (statusInfo example_taxonomy (One HUndefined)) = RNull"
    and h: "s_handle (st_mixed example_taxonomy) = ''mixed''"
    by (simp_all add: example_taxonomy_def option_of_def mixed_status_def)
  have "[HStr ''ready'', HUndefined, HStr ''wip'', HStr ''ready''] \<noteq> []
        \<and> length (first_occurrences [HStr ''ready'', HUndefined, HStr ''wip'', HStr ''ready'']) \<noteq> 1"
    by simp
  with two obtain m where
    "fst (statusInfo example_taxonomy
       (Many [HStr ''ready'', HUndefined, HStr ''wip'', HStr ''ready''])) = RStatus m"
    "s_handle m = s_handle (st_mixed example_taxonomy)"
    "s_statuses m = Some (filter (\<lambda>r. r \<noteq> RNull \<and> r \<noteq> RUndefined)
        (map (\<lambda>h. fst (statusInfo example_taxonomy (One h)))
           (first_occurrences [HStr ''ready'', HUndefined, HStr ''wip'', HStr ''ready''])))"
    by blast
  moreover have "filter (\<lambda>r. r \<noteq> RNull \<and> r \<noteq> RUndefined)
        (map (\<lambda>h. fst (statusInfo example_taxonomy (One h)))
           (first_occurrences [HStr ''ready'', HUndefined, HStr ''wip'', HStr ''ready''])) =
      [RStatus ready_status, RStatus wip_status]"
    by (simp only: f2 list.map r w n) simp
  ultimately have "\<exists>m. fst (statusInfo example_taxonomy
              (Many [HStr ''ready'', HUndefined, HStr ''wip'', HStr ''ready''])) = RStatus m
        \<and> s_handle m = ''mixed''
        \<and> s_statuses m = Some [RStatus ready_status, RStatus wip_status]"
    unfolding h by metis
  with f1 f2 a n show ?thesis by blast
qed

theorem statusInfo_unknown_witness:
  "''unknown-handle'' \<noteq> s_handle (st_mixed example_taxonomy)
   \<and> map_of (st_options example_taxonomy) ''unknown-handle'' = None
   \<and> ''unknown-handle'' \<notin> set object_prototype_members
   \<and> st_default example_taxonomy \<noteq> s_handle (st_mixed example_taxonomy)
   \<and> statusInfo example_taxonomy (One (HStr ''unknown-handle'')) =
        (RStatus ready_status,
         [ConsoleError (LogMsg ''Status unknown-handle is not a known option.'')])
   \<and> fst (statusInfo example_taxonomy (One (HStr ''ready''))) = RStatus ready_status"
proof -
  have a: "''unknown-handle'' \<noteq> s_handle (st_mixed example_taxonomy)"
    by (simp add: example_taxonomy_def mixed_status_def)
  have b: "map_of (st_options example_taxonomy) ''unknown-handle'' = None"
    by (simp add: example_taxonomy_def)
  have p: "''unknown-handle'' \<notin> set object_prototype_members"
    by (simp add: object_prototype_members_def)
  have c: "st_default example_taxonomy \<noteq> s_handle (st_mixed example_taxonomy)"
    by (simp add: example_taxonomy_def mixed_status_def)
  have d: "option_of example_taxonomy ''ready'' = RStatus ready_status"
    and e: "st_default example_taxonomy = ''ready''"
    by (simp_all add: example_taxonomy_def option_of_def)
  note th = statusInfo_unknown [OF a b p]
  from th c have 1: "statusInfo example_taxonomy (One (HStr ''unknown-handle'')) =
        (RStatus ready_status,
         [ConsoleError (LogMsg (''Status '' @ ''unknown-handle'' @ '' is not a known option.''))])"
    and 2: "fst (statusInfo example_taxonomy (One (HStr ''unknown-handle''))) =
         fst (statusInfo example_taxonomy (One (HStr ''ready'')))"
    unfolding e d by blast+
  from 1 2 have "fst (statusInfo example_taxonomy (One (HStr ''ready''))) = RStatus ready_status"
    by (metis fst_conv)
  with 1 a b p c show ?thesis by simp
qed

text \<open>
  A handle that names an inherited member is not logged as unknown: the lookup finds
  the member, and \<^verbatim>\<open>statusInfo\<close> returns it.
\<close>

lemma statusInfo_inherited_example:
  "map_of (st_options example_taxonomy) ''constructor'' = None
   \<and> statusInfo example_taxonomy (One (HStr ''constructor'')) = (RInherited ''constructor'', [])"
  by (simp add: example_taxonomy_def mixed_status_def option_of_def object_prototype_members_def)

text \<open>
  When the default handle is the mixed handle, an unknown handle resolves to the
  option stored under the default handle, while the default handle itself resolves
  to the mixed record.
\<close>

theorem statusInfo_unknown_counterexample:
  "''unknown-handle'' \<noteq> s_handle (st_mixed mixed_default_taxonomy)
   \<and> map_of (st_options mixed_default_taxonomy) ''unknown-handle'' = None
   \<and> fst (statusInfo mixed_default_taxonomy (One (HStr ''unknown-handle''))) =
       RStatus (Status ''mixed'' ''Mixed'' [(''color'', ''#888888'')] None)
   \<and> fst (statusInfo mixed_default_taxonomy
              (One (HStr (st_default mixed_default_taxonomy)))) =
       RStatus (Status ''mixed'' ''Mixed'' [] None)"
  by (simp add: mixed_default_taxonomy_def mixed_status_def option_of_def
      object_prototype_members_def)

theorem classifier_exclusive_witness:
  "isVarView example_source \<lparr>path = ''Button~Large.HBS''\<rparr>
   \<and> \<not> isView example_source \<lparr>path = ''Button~Large.HBS''\<rparr>
   \<and> \<not> isAsset example_source \<lparr>path = ''Button~Large.HBS''\<rparr>
   \<and> isConfig example_source \<lparr>path = ''button.config.json''\<rparr>
   \<and> \<not> isAsset example_source \<lparr>path = ''button.config.json''\<rparr>
   \<and> isView example_source \<lparr>path = ''card/button.hbs''\<rparr>
   \<and> \<not> isAsset example_source \<lparr>path = ''card/button.hbs''\<rparr>
   \<and> isAsset example_source \<lparr>path = ''button.css''\<rparr>"
proof -
  have v: "isVarView example_source \<lparr>path = ''Button~Large.HBS''\<rparr>" by code_simp
  have c: "isConfig example_source \<lparr>path = ''button.config.json''\<rparr>" by code_simp
  have w: "isView example_source \<lparr>path = ''card/button.hbs''\<rparr>" by code_simp
  have a: "isAsset example_source \<lparr>path = ''button.css''\<rparr>" by code_simp
  show ?thesis
    using v c w a
      classifier_exclusive [of example_source "\<lparr>path = ''Button~Large.HBS''\<rparr>"]
      classifier_exclusive [of example_source "\<lparr>path = ''button.config.json''\<rparr>"]
      classifier_exclusive [of example_source "\<lparr>path = ''card/button.hbs''\<rparr>"]
    by blast
qed

theorem collated_render_joins_in_order_witness:
  "fst (render example_source [1, 0] (Entity (Component collated_card)) JUndefined None) =
     Inr (JStr (''xA'' @ [CHR 0x0A] @ ''yB''))
   \<and> fst (render collating_source [] (Entity (Component collated_card))
          (JObj [(''@b'', JObj [(''title'', JStr ''@ref'')])]) None) =
     Inr (JStr (''[a:xA]'' @ [CHR 0x0A] @ ''[b:yexpanded]''))"
proof -
  have c: "c_collated collated_card" by (simp add: collated_card_def)
  have l: "src_load example_source = Inr ()" "src_load collating_source = Inr ()"
    by (simp_all add: example_source_def collating_source_def)
  have p: "\<not> use_layout None \<or> c_preview collated_card = None \<or> c_preview collated_card = Some []"
    by (simp add: use_layout_def)
  have vs: "c_variants collated_card = [variant_a, variant_b]" by (simp add: collated_card_def)
  have ra: "fst (render example_source [] (Entity (Variant variant_a))
              (JObj [(''title'', JStr ''A'')]) None) = Inr (JStr ''xA'')"
    and rb: "fst (render example_source [] (Entity (Variant variant_b))
              (JObj [(''title'', JStr ''B'')]) None) = Inr (JStr ''yB'')"
    and ra': "fst (render collating_source [] (Entity (Variant variant_a))
              (JObj [(''title'', JStr ''A'')]) None) = Inr (JStr ''xA'')"
    and rb': "fst (render collating_source [] (Entity (Variant variant_b))
              (JObj [(''title'', JStr ''expanded'')]) None) = Inr (JStr ''yexpanded'')"
    by code_simp+
  have one: "list_all2
      (\<lambda>v m. \<exists>rc markup.
         src_resolve example_source
           (if truthy (get_prop JUndefined (''@'' @ v_handle v))
            then get_prop JUndefined (''@'' @ v_handle v) else v_context v) = Inr rc
         \<and> fst (render example_source [] (Entity (Variant v)) (JObj rc) None) = Inr markup
         \<and> (case src_collator example_source of
               None \<Rightarrow> m = markup
             | Some collator \<Rightarrow> collator markup v = Inr m))
      (c_variants collated_card) [JStr ''xA'', JStr ''yB'']"
    unfolding vs using ra rb
    by (simp add: example_source_def example_resolve_def variant_a_def variant_b_def)
  have two: "list_all2
      (\<lambda>v m. \<exists>rc markup.
         src_resolve collating_source
           (if truthy (get_prop (JObj [(''@b'', JObj [(''title'', JStr ''@ref'')])]) (''@'' @ v_handle v))
            then get_prop (JObj [(''@b'', JObj [(''title'', JStr ''@ref'')])]) (''@'' @ v_handle v)
            else v_context v) = Inr rc
         \<and> fst (render collating_source [] (Entity (Variant v)) (JObj rc) None) = Inr markup
         \<and> (case src_collator collating_source of
               None \<Rightarrow> m = markup
             | Some collator \<Rightarrow> collator markup v = Inr m))
      (c_variants collated_card) [JStr ''[a:xA]'', JStr ''[b:yexpanded]'']"
    unfolding vs using ra' rb'
    by (simp add: collating_source_def example_source_def example_resolve_def
        example_collator_def variant_a_def variant_b_def)
  show ?thesis
    using collated_render_joins_in_order [OF c l(1) p one, of "[1, 0]"]
      collated_render_joins_in_order [OF c l(2) p two, of "[]"]
    by (simp add: js_join_def)
qed

text \<open>
  A supplied context that has the key \<^verbatim>\<open>@a\<close> with the value \<^verbatim>\<open>null\<close>: the key is present,
  yet variant \<^verbatim>\<open>a\<close> is rendered with its stored context (markup \<^verbatim>\<open>xA\<close>), not with the
  supplied value (which resolves to the empty object and would give \<^verbatim>\<open>x\<close>).
\<close>

theorem collated_context_counterexample:
  "variant_context_spec (JObj [(''@a'', JNull)]) variant_a = JNull
   \<and> variant_context (js_or (JObj [(''@a'', JNull)]) (JObj [])) variant_a =
       JObj [(''title'', JStr ''A'')]
   \<and> src_resolve example_source JNull = Inr []
   \<and> fst (render example_source [] (Entity (Variant variant_a)) (JObj []) None) =
       Inr (JStr ''x'')
   \<and> fst (render example_source [] (Entity (Component collated_card))
            (JObj [(''@a'', JNull)]) None) =
       Inr (JStr (''xA'' @ [CHR 0x0A] @ ''yB''))"
  by code_simp

text \<open>
  In a collated component the failure of one variant is swallowed by the render of
  that variant: the collated render still resolves with a string, in which the
  failed variant contributes nothing.
\<close>

lemma collated_failure_example:
  "render example_source []
     (Entity (Component (collated_card\<lparr>c_variants := [broken_variant, variant_b]\<rparr>)))
     JUndefined None =
   (Inr (JStr ([CHR 0x0A] @ ''yB'')),
    [ConsoleError (LogErr (Failure ''ENOENT'')),
     EngineRender (Some ''card/b.hbs'') ''y''
       (JObj [(''title'', JStr ''B''), (''_self'', JObj [(''handle'', JStr ''b'')])])])"
  by code_simp

end
